theory Spec2Isabelle
  imports Complex_Main
begin

section \<open>Python strings\<close>

text \<open>
  A Python \<open>str\<close> is a sequence of code points. The model uses \<open>string\<close> and reads
  each \<open>char\<close> as the code point of the same number, so it covers exactly the text
  whose code points are below 256 (ASCII and Latin-1). On these code points
  \<open>str.lower\<close>, \<open>str.isspace\<close> and \<open>str.strip\<close> are what the definitions below
  compute.
\<close>

definition isspace :: "char \<Rightarrow> bool" where
  "isspace c =
     (let n = (of_char c :: nat)
      in (9 \<le> n \<and> n \<le> 13) \<or> (28 \<le> n \<and> n \<le> 32) \<or> n = 133 \<or> n = 160)"

definition lower_char :: "char \<Rightarrow> char" where
  "lower_char c =
     (let n = (of_char c :: nat)
      in if (65 \<le> n \<and> n \<le> 90) \<or> (192 \<le> n \<and> n \<le> 222 \<and> n \<noteq> 215)
         then char_of (n + 32) else c)"

definition lower :: "string \<Rightarrow> string" where
  "lower s = map lower_char s"

definition lstrip :: "string \<Rightarrow> string" where
  "lstrip s = dropWhile isspace s"

definition rstrip :: "string \<Rightarrow> string" where
  "rstrip s = rev (dropWhile isspace (rev s))"

definition strip :: "string \<Rightarrow> string" where
  "strip s = rstrip (lstrip s)"

text \<open>\<open>str.encode()\<close>: UTF-8, one byte below 128 and two bytes from 128 to 255.\<close>

definition encode_char :: "char \<Rightarrow> string" where
  "encode_char c =
     (let n = (of_char c :: nat)
      in if n < 128 then [c] else [char_of (192 + n div 64), char_of (128 + n mod 64)])"

definition encode :: "string \<Rightarrow> string" where
  "encode s = concat (map encode_char s)"

section \<open>The query cache key (rag\_pipeline.py)\<close>

text \<open>
  \<open>_get_cache_key\<close>: the MD5 hex digest of the lowered, stripped, encoded query behind
  the prefix \<open>rag:query:\<close>. The digest is \<open>hashlib\<close>'s; it is the parameter \<open>md5\<close>.
\<close>

definition get_cache_key :: "(string \<Rightarrow> string) \<Rightarrow> string \<Rightarrow> string" where
  "get_cache_key md5 query = ''rag:query:'' @ md5 (encode (strip (lower query)))"

section \<open>Python values, dictionaries and exceptions\<close>

text \<open>
  The values that travel through JSON and through the dictionaries of the source. A
  \<open>dict\<close> is an association list in insertion order with distinct keys:
  \<open>dict_set\<close> is \<open>d[k] = v\<close>, \<open>dict_get\<close> is \<open>d.get(k)\<close>.
\<close>

datatype pyval =
    PNone
  | PBool bool
  | PInt int
  | PFloat real
  | PStr string
  | PList "pyval list"
  | PDict "(string \<times> pyval) list"

type_synonym pydict = "(string \<times> pyval) list"

fun dict_set :: "'k \<Rightarrow> 'v \<Rightarrow> ('k \<times> 'v) list \<Rightarrow> ('k \<times> 'v) list" where
  "dict_set k v [] = [(k, v)]"
| "dict_set k v ((k', v') # d) =
     (if k = k' then (k, v) # d else (k', v') # dict_set k v d)"

definition dict_get :: "('k \<times> 'v) list \<Rightarrow> 'k \<Rightarrow> 'v option" where
  "dict_get d k = map_of d k"

text \<open>
  Every exception of the source and of the capabilities it calls is a value. The string is
  the message; \<open>str_error\<close> is \<open>str(e)\<close>, which for an \<open>HTTPException\<close> is the
  status code followed by the detail.
\<close>

datatype error =
    ValueError string
  | TypeError string
  | AttributeError string
  | OSError string
  | HTTPException nat string
  | DataError string
  | ValidationError string
  | RemoteError string

fun str_nat :: "nat \<Rightarrow> string" where
  "str_nat n =
     (if n < 10 then [char_of (48 + n)] else str_nat (n div 10) @ [char_of (48 + n mod 10)])"

declare str_nat.simps [simp del]

fun str_error :: "error \<Rightarrow> string" where
  "str_error (ValueError m) = m"
| "str_error (TypeError m) = m"
| "str_error (AttributeError m) = m"
| "str_error (OSError m) = m"
| "str_error (HTTPException c m) = str_nat c @ '': '' @ m"
| "str_error (DataError m) = m"
| "str_error (ValidationError m) = m"
| "str_error (RemoteError m) = m"

section \<open>File names (pathlib) and the file type (document\_processor.py)\<close>

text \<open>
  \<open>Path(filename).suffix\<close> on a POSIX path: the name is the last component that is
  neither empty nor \<open>.\<close>; the suffix starts at the last dot of the name, unless that dot
  is the first or the last character of the name.
\<close>

fun split_on :: "char \<Rightarrow> string \<Rightarrow> string list" where
  "split_on sep [] = [[]]"
| "split_on sep (c # cs) =
     (if c = sep then [] # split_on sep cs
      else (case split_on sep cs of
              [] \<Rightarrow> [[c]]
            | w # ws \<Rightarrow> (c # w) # ws))"

definition path_parts :: "string \<Rightarrow> string list" where
  "path_parts p = filter (\<lambda>x. x \<noteq> [] \<and> x \<noteq> ''.'') (split_on CHR ''/'' p)"

definition path_name :: "string \<Rightarrow> string" where
  "path_name p = (let parts = path_parts p in if parts = [] then [] else last parts)"

definition rfind :: "char \<Rightarrow> string \<Rightarrow> int" where
  "rfind c s =
     (if c \<in> set s
      then int (length s) - 1 - int (length (takeWhile (\<lambda>x. x \<noteq> c) (rev s)))
      else - 1)"

definition path_suffix :: "string \<Rightarrow> string" where
  "path_suffix p =
     (let name = path_name p; i = rfind CHR ''.'' name
      in if 0 < i \<and> i < int (length name) - 1 then drop (nat i) name else [])"

definition type_mapping :: "(string \<times> string) list" where
  "type_mapping =
     [(''.pdf'', ''pdf''), (''.docx'', ''docx''), (''.doc'', ''docx''),
      (''.xlsx'', ''xlsx''), (''.xls'', ''xlsx''), (''.txt'', ''txt'')]"

definition get_file_type :: "string \<Rightarrow> string" where
  "get_file_type filename =
     (let extension = lower (path_suffix filename)
      in case dict_get type_mapping extension of
           Some t \<Rightarrow> t
         | None \<Rightarrow> ''unknown'')"

section \<open>The external capabilities\<close>

text \<open>
  What the source calls and does not define is a field of \<open>env\<close>: the digest, the JSON
  codec, \<open>str\<close> of a dictionary, the text splitter of langchain, the readers of the
  document formats, the embedding and completion endpoints, and the cosine distance
  operator of pgvector. A call that can raise returns \<open>error + _\<close>. The four latencies
  are the wall-clock time a cache read, an embedding call, a similarity query and a
  completion call take; everything else takes no time.
\<close>

record env =
  md5_hexdigest :: "string \<Rightarrow> string"
  json_dumps :: "pyval \<Rightarrow> string"
  json_loads :: "string \<Rightarrow> error + pyval"
  str_dict :: "pydict \<Rightarrow> string"
  split_text :: "string \<Rightarrow> error + string list"
  pdf_pages :: "string \<Rightarrow> error + string list"
  docx_paragraphs :: "string \<Rightarrow> error + string list"
  xlsx_sheets :: "string \<Rightarrow> error + (string \<times> string option list list) list"
  read_text :: "string \<Rightarrow> error + string"
  embed_query :: "string \<Rightarrow> error + real list"
  embed_documents :: "string list \<Rightarrow> error + real list list"
  cosine_distance :: "real list \<Rightarrow> real list \<Rightarrow> real"
  chain_run :: "string \<Rightarrow> string \<Rightarrow> error + string"
  redis_latency :: real
  embed_latency :: real
  search_latency :: real
  llm_latency :: real

section \<open>The persistent state (database.py, Redis, the upload directory)\<close>

record document =
  doc_id :: nat
  filename :: string
  file_type :: string
  doc_content :: string
  upload_date :: real
  file_size :: nat
  page_count :: "int option"
  processed :: bool

record document_chunk =
  chunk_id :: nat
  document_id :: nat
  chunk_index :: nat
  content :: string
  embedding :: "real list option"
  chunk_metadata :: string

record chat_entry =
  history_id :: nat
  session_id :: string
  query_text :: string
  response :: string
  sources_json :: string
  timestamp :: real
  response_time :: real

text \<open>
  A Redis entry is its value and its expiry time, if it has one. \<open>stdout\<close> is what
  \<open>print\<close> wrote, \<open>completion_calls\<close> counts the calls of the completion endpoint,
  \<open>files\<close> is the file system as paths with their bytes.
\<close>

record state =
  documents :: "document list"
  document_chunks :: "document_chunk list"
  chat_history :: "chat_entry list"
  redis_store :: "(string \<times> string \<times> real option) list"
  cache_enabled :: bool
  clock :: real
  completion_calls :: nat
  stdout :: "string list"
  files :: "(string \<times> string) list"
  background_tasks :: "(nat \<times> string \<times> string) list"

definition new_id :: "nat list \<Rightarrow> nat" where
  "new_id ids = Suc (fold max ids 0)"

definition tick :: "real \<Rightarrow> state \<Rightarrow> state" where
  "tick d s = s\<lparr>clock := clock s + d\<rparr>"

subsection \<open>Redis\<close>

definition live :: "real \<Rightarrow> real option \<Rightarrow> bool" where
  "live now expiry = (case expiry of None \<Rightarrow> True | Some t \<Rightarrow> now < t)"

definition redis_get :: "state \<Rightarrow> string \<Rightarrow> string option" where
  "redis_get s k =
     (case dict_get (redis_store s) k of
        None \<Rightarrow> None
      | Some (v, expiry) \<Rightarrow> if live (clock s) expiry then Some v else None)"

definition redis_setex :: "string \<Rightarrow> real \<Rightarrow> string \<Rightarrow> state \<Rightarrow> state" where
  "redis_setex k ttl v s =
     s\<lparr>redis_store := dict_set k (v, Some (clock s + ttl)) (redis_store s)\<rparr>"

definition startswith :: "string \<Rightarrow> string \<Rightarrow> bool" where
  "startswith s p = (take (length p) s = p)"

text \<open>\<open>KEYS p*\<close> for a pattern that is a literal prefix followed by a star.\<close>

definition redis_keys :: "state \<Rightarrow> string \<Rightarrow> string list" where
  "redis_keys s p =
     map fst (filter (\<lambda>(k, v, expiry). live (clock s) expiry \<and> startswith k p) (redis_store s))"

definition redis_delete :: "string list \<Rightarrow> state \<Rightarrow> state" where
  "redis_delete ks s =
     s\<lparr>redis_store := filter (\<lambda>(k, v, expiry). k \<notin> set ks) (redis_store s)\<rparr>"

section \<open>DocumentProcessor (document\_processor.py)\<close>

definition NL :: char where
  "NL = CHR 0x0A"


fun join :: "string \<Rightarrow> string list \<Rightarrow> string" where
  "join sep [] = []"
| "join sep [x] = x"
| "join sep (x # y # ys) = x @ sep @ join sep (y # ys)"









section \<open>RAGPipeline (rag\_pipeline.py)\<close>

subsection \<open>vector\_search\<close>

text \<open>
  The SQL statement, clause by clause: the rows of \<open>document_chunks\<close> whose similarity
  \<open>1 - (embedding <=> q)\<close> is above the threshold (a row with a NULL embedding has a NULL
  similarity and is not selected), ordered by the distance \<open>embedding <=> q\<close>, cut by
  \<open>LIMIT\<close>. PostgreSQL rejects a negative \<open>LIMIT\<close>. The chunk objects built from the
  rows carry no embedding. Scores are \<open>real\<close>: the rounding of floating point and NaN
  are outside the model.
\<close>

definition vector_search ::
  "env \<Rightarrow> state \<Rightarrow> real list \<Rightarrow> int \<Rightarrow> real \<Rightarrow> error + (document_chunk \<times> real) list" where
  "vector_search env db query_embedding top_k similarity_threshold =
     (if top_k < 0 then Inl (DataError ''LIMIT must not be negative'')
      else
        let rows = List.map_filter
                     (\<lambda>c. case embedding c of
                             None \<Rightarrow> None
                           | Some e \<Rightarrow>
                               let d = cosine_distance env e query_embedding
                               in if 1 - d > similarity_threshold then Some (c, d) else None)
                     (document_chunks db);
            results = take (nat top_k) (sort_key snd rows)
        in Inr (map (\<lambda>(c, d). (c\<lparr>embedding := None\<rparr>, 1 - d)) results))"

subsection \<open>retrieve\_context\<close>

definition context_part :: "document_chunk \<Rightarrow> string" where
  "context_part chunk =
     ''[Document '' @ str_nat (document_id chunk) @ '', Section '' @
     str_nat (chunk_index chunk) @ '']'' @ [NL] @ content chunk @ [NL]"

definition source_entry :: "document_chunk \<Rightarrow> real \<Rightarrow> pyval" where
  "source_entry chunk score =
     PDict [(''document_id'', PInt (int (document_id chunk))),
            (''chunk_index'', PInt (int (chunk_index chunk))),
            (''similarity_score'', PFloat score),
            (''content_preview'',
               PStr (if length (content chunk) > 200
                     then take 200 (content chunk) @ ''...''
                     else content chunk))]"

definition retrieve_context ::
  "env \<Rightarrow> state \<Rightarrow> string \<Rightarrow> int \<Rightarrow> (error + (string \<times> pyval list)) \<times> state" where
  "retrieve_context env db query top_k =
     (let s1 = tick (embed_latency env) db
      in case embed_query env query of
           Inl e \<Rightarrow> (Inl e, s1)
         | Inr query_embedding \<Rightarrow>
             let s2 = tick (search_latency env) s1
             in case vector_search env s2 query_embedding top_k 0.7 of
                  Inl e \<Rightarrow> (Inl e, s2)
                | Inr results \<Rightarrow>
                    (Inr (join [NL, NL] (map (\<lambda>(chunk, score). context_part chunk) results),
                          map (\<lambda>(chunk, score). source_entry chunk score) results),
                     s2))"

subsection \<open>generate\_answer\<close>

definition not_found_answer :: string where
  "not_found_answer =
     ''I couldn'' @ [CHR 0x27] @ ''t find any relevant information in the knowledge base to answer your question. Please try rephrasing or check if the relevant documents have been uploaded.''"

definition answer_bundle :: "string \<Rightarrow> pyval list \<Rightarrow> real \<Rightarrow> bool \<Rightarrow> pydict" where
  "answer_bundle a srcs t c =
     [(''answer'', PStr a), (''sources'', PList srcs),
      (''response_time'', PFloat t), (''cached'', PBool c)]"

text \<open>
  The cache check of \<open>generate_answer\<close>: \<open>Some\<close> of the stored text when caching is on,
  the key is live and the text is not empty (\<open>if cached_result\<close>); the read takes
  \<open>redis_latency\<close>.
\<close>

definition cache_check :: "env \<Rightarrow> state \<Rightarrow> string \<Rightarrow> bool \<Rightarrow> string option \<times> state" where
  "cache_check env s query use_cache =
     (if use_cache \<and> cache_enabled s
      then let cache_key = get_cache_key (md5_hexdigest env) query;
               s1 = tick (redis_latency env) s
           in (case redis_get s1 cache_key of
                 None \<Rightarrow> (None, s1)
               | Some cached_result \<Rightarrow>
                   if cached_result \<noteq> [] then (Some cached_result, s1) else (None, s1))
      else (None, s))"

definition save_and_cache ::
  "env \<Rightarrow> state \<Rightarrow> string \<Rightarrow> string \<Rightarrow> string \<Rightarrow> pyval list \<Rightarrow> real \<Rightarrow> pydict \<times> state" where
  "save_and_cache env s query sid answer srcs rt =
     (let result = answer_bundle (strip answer) srcs rt False;
          chat_entry = \<lparr>history_id = new_id (map history_id (chat_history s)),
                        session_id = sid, query_text = query, response = strip answer,
                        sources_json = json_dumps env (PList srcs),
                        timestamp = clock s, response_time = rt\<rparr>;
          s1 = s\<lparr>chat_history := chat_history s @ [chat_entry]\<rparr>;
          s2 = (if cache_enabled s1
                then redis_setex (get_cache_key (md5_hexdigest env) query) 3600
                       (json_dumps env (PDict result)) s1
                else s1)
      in (result, s2))"

definition generate_answer ::
  "env \<Rightarrow> state \<Rightarrow> string \<Rightarrow> string \<Rightarrow> bool \<Rightarrow> (error + pydict) \<times> state" where
  "generate_answer env db query sid use_cache =
     (let start_time = clock db
      in case cache_check env db query use_cache of
           (Some cached_result, s1) \<Rightarrow>
             (case json_loads env cached_result of
                Inl e \<Rightarrow> (Inl e, s1)
              | Inr (PDict result) \<Rightarrow>
                  (Inr (dict_set ''response_time'' (PFloat (clock s1 - start_time))
                          (dict_set ''cached'' (PBool True) result)), s1)
              | Inr _ \<Rightarrow> (Inl (TypeError ''object does not support item assignment''), s1))
         | (None, s1) \<Rightarrow>
             (case retrieve_context env s1 query 5 of
                (Inl e, s2) \<Rightarrow> (Inl e, s2)
              | (Inr (context, srcs), s2) \<Rightarrow>
                  if context = []
                  then (Inr (answer_bundle not_found_answer [] (clock s2 - start_time) False), s2)
                  else
                    let s3 = (tick (llm_latency env) s2)
                               \<lparr>completion_calls := Suc (completion_calls s2)\<rparr>
                    in case chain_run env context query of
                         Inl e \<Rightarrow> (Inl e, s3)
                       | Inr answer \<Rightarrow>
                           (case save_and_cache env s3 query sid answer srcs
                                   (clock s3 - start_time) of
                              (result, s4) \<Rightarrow> (Inr result, s4))))"

subsection \<open>clear\_cache\<close>

definition clear_cache :: "state \<Rightarrow> state" where
  "clear_cache s =
     (if cache_enabled s
      then let keys = redis_keys s ''rag:query:''
           in if keys \<noteq> [] then redis_delete keys s else s
      else s)"

section \<open>The endpoints (main.py)\<close>

subsection \<open>Request and response models\<close>

record query_request =
  rq_query :: string
  rq_session_id :: string
  rq_top_k :: "int option"

record query_response =
  qr_answer :: string
  qr_sources :: "pydict list"
  qr_response_time :: real
  qr_cached :: bool

fun as_str :: "pyval option \<Rightarrow> string option" where
  "as_str (Some (PStr a)) = Some a"
| "as_str _ = None"

fun as_float :: "pyval option \<Rightarrow> real option" where
  "as_float (Some (PFloat t)) = Some t"
| "as_float (Some (PInt i)) = Some (real_of_int i)"
| "as_float _ = None"

fun as_bool :: "pyval option \<Rightarrow> bool option" where
  "as_bool (Some (PBool b)) = Some b"
| "as_bool _ = None"


fun as_dict :: "pyval \<Rightarrow> pydict option" where
  "as_dict (PDict d) = Some d"
| "as_dict _ = None"

fun as_dicts :: "pyval option \<Rightarrow> pydict list option" where
  "as_dicts (Some (PList vs)) =
     (if list_all (\<lambda>v. as_dict v \<noteq> None) vs then Some (List.map_filter as_dict vs) else None)"
| "as_dicts _ = None"

text \<open>
  \<open>QueryResponse(**result)\<close>: the four declared fields are read from the dictionary and
  checked against their types; any other key is ignored. The coercions of pydantic beyond
  integer to float are not modelled.
\<close>

definition QueryResponse :: "pydict \<Rightarrow> error + query_response" where
  "QueryResponse result =
     (case as_str (dict_get result ''answer'') of
        None \<Rightarrow> Inl (ValidationError ''answer'')
      | Some a \<Rightarrow>
     (case as_dicts (dict_get result ''sources'') of
        None \<Rightarrow> Inl (ValidationError ''sources'')
      | Some ss \<Rightarrow>
     (case as_float (dict_get result ''response_time'') of
        None \<Rightarrow> Inl (ValidationError ''response_time'')
      | Some t \<Rightarrow>
     (case as_bool (dict_get result ''cached'') of
        None \<Rightarrow> Inl (ValidationError ''cached'')
      | Some c \<Rightarrow>
          Inr \<lparr>qr_answer = a, qr_sources = ss, qr_response_time = t, qr_cached = c\<rparr>))))"

subsection \<open>upload\_document\<close>

definition UPLOAD_DIR :: string where
  "UPLOAD_DIR = ''/tmp/documind_uploads''"

definition path_join :: "string \<Rightarrow> string \<Rightarrow> string" where
  "path_join dir name = (if startswith name ''/'' then name else dir @ ''/'' @ name)"

text \<open>
  The body of the \<open>try\<close> block, then the \<open>except Exception\<close> around it, which turns
  every exception, the 400 of the type check included, into a 500 carrying its text. The
  file system is a flat map from paths to bytes, so writing a file always succeeds.
\<close>

definition upload_body :: "state \<Rightarrow> string \<Rightarrow> string \<Rightarrow> (error + document) \<times> state" where
  "upload_body s fname bytes =
     (let ftype = get_file_type fname
      in if ftype = ''unknown''
         then (Inl (HTTPException 400 ''Unsupported file type''), s)
         else
           let file_path = path_join UPLOAD_DIR fname;
               s1 = s\<lparr>files := dict_set file_path bytes (files s)\<rparr>;
               doc = \<lparr>doc_id = new_id (map doc_id (documents s1)), filename = fname,
                      file_type = ftype, doc_content = [], upload_date = clock s1,
                      file_size = length bytes, page_count = None, processed = False\<rparr>;
               s2 = s1\<lparr>documents := documents s1 @ [doc]\<rparr>;
               s3 = s2\<lparr>background_tasks :=
                          background_tasks s2 @ [(doc_id doc, file_path, ftype)]\<rparr>
           in (Inr doc, s3))"

definition upload_document :: "state \<Rightarrow> string \<Rightarrow> string \<Rightarrow> (error + document) \<times> state" where
  "upload_document s fname bytes =
     (case upload_body s fname bytes of
        (Inl e, s') \<Rightarrow> (Inl (HTTPException 500 (str_error e)), s')
      | (Inr doc, s') \<Rightarrow> (Inr doc, s'))"

subsection \<open>process\_document\_background\<close>








subsection \<open>query\_documents\<close>

text \<open>
  The endpoint passes the query and the session id of the request to
  \<open>generate_answer\<close>, and nothing else; every exception becomes a 500.
\<close>

definition query_documents ::
  "env \<Rightarrow> state \<Rightarrow> query_request \<Rightarrow> (error + query_response) \<times> state" where
  "query_documents env db request =
     (case generate_answer env db (rq_query request) (rq_session_id request) True of
        (Inl e, s') \<Rightarrow> (Inl (HTTPException 500 (str_error e)), s')
      | (Inr result, s') \<Rightarrow>
          (case QueryResponse result of
             Inl e \<Rightarrow> (Inl (HTTPException 500 (str_error e)), s')
           | Inr r \<Rightarrow> (Inr r, s')))"

subsection \<open>delete\_document\<close>

definition delete_document :: "state \<Rightarrow> nat \<Rightarrow> (error + string) \<times> state" where
  "delete_document db did =
     (case find (\<lambda>d. doc_id d = did) (documents db) of
        None \<Rightarrow> (Inl (HTTPException 404 ''Document not found''), db)
      | Some doc \<Rightarrow>
          let s1 = db\<lparr>document_chunks := filter (\<lambda>c. document_id c \<noteq> did) (document_chunks db)\<rparr>;
              s2 = s1\<lparr>documents := filter (\<lambda>d. doc_id d \<noteq> doc_id doc) (documents s1)\<rparr>;
              s3 = clear_cache s2
          in (Inr ''Document deleted successfully'', s3))"

section \<open>The file types as the specification lists them\<close>

text \<open>
  The specification's table, written from its words: six extensions, four types, and
  \<open>unknown\<close> for everything else. It is compared with \<open>get_file_type\<close> below.
\<close>

definition extension_type :: "string \<Rightarrow> string" where
  "extension_type x =
     (if x = ''.pdf'' then ''pdf''
      else if x = ''.docx'' \<or> x = ''.doc'' then ''docx''
      else if x = ''.xlsx'' \<or> x = ''.xls'' then ''xlsx''
      else if x = ''.txt'' then ''txt''
      else ''unknown'')"

section \<open>Concrete states and capabilities for the examples\<close>

definition empty_state :: state where
  "empty_state =
     \<lparr>documents = [], document_chunks = [], chat_history = [], redis_store = [],
      cache_enabled = True, clock = 0, completion_calls = 0, stdout = [], files = [],
      background_tasks = []\<rparr>"

definition demo_env :: env where
  "demo_env =
     \<lparr>md5_hexdigest = (\<lambda>b. b),
      json_dumps = (\<lambda>v. ''{}''),
      json_loads = (\<lambda>t. Inr (PDict [(''answer'', PStr ''stored''), (''sources'', PList []),
                                     (''response_time'', PFloat 9), (''cached'', PBool False)])),
      str_dict = (\<lambda>d. ''{}''),
      split_text = (\<lambda>t. Inr (if t = [] then [] else [t])),
      pdf_pages = (\<lambda>b. Inr [b]),
      docx_paragraphs = (\<lambda>b. Inr [b]),
      xlsx_sheets = (\<lambda>b. Inr []),
      read_text = (\<lambda>b. Inr b),
      embed_query = (\<lambda>t. Inr [1]),
      embed_documents = (\<lambda>ts. Inr (map (\<lambda>t. [1]) ts)),
      cosine_distance = (\<lambda>a b. if a = b then 0 else 1),
      chain_run = (\<lambda>c q. Inr '' an answer ''),
      redis_latency = 1 / 1000,
      embed_latency = 1 / 10,
      search_latency = 1 / 100,
      llm_latency = 2\<rparr>"

text \<open>
  An index of three chunks: two of document 1 at distance 0 from the query vector \<open>[1]\<close>
  of \<open>demo_env\<close>, one of document 2 at distance 1.
\<close>

definition demo_index :: state where
  "demo_index = empty_state\<lparr>document_chunks :=
     [\<lparr>chunk_id = 1, document_id = 1, chunk_index = 0, content = ''alpha'',
       embedding = Some [1], chunk_metadata = ''{}''\<rparr>,
      \<lparr>chunk_id = 2, document_id = 1, chunk_index = 1, content = ''beta'',
       embedding = Some [1], chunk_metadata = ''{}''\<rparr>,
      \<lparr>chunk_id = 3, document_id = 2, chunk_index = 0, content = ''gamma'',
       embedding = Some [0], chunk_metadata = ''{}''\<rparr>]\<rparr>"

text \<open>
  A state whose cache holds an entry for the query \<open>What is X?\<close> under the key that
  \<open>demo_env\<close> derives for it, live until time 100.
\<close>

definition cached_state :: state where
  "cached_state = empty_state\<lparr>redis_store :=
     [(''rag:query:what is x?'', ''{}'', Some 100), (''session:42'', ''data'', None)]\<rparr>"



text \<open>What the retrieval step returns for the query vector of \<open>demo_env\<close> on that index.\<close>

definition demo_context :: string where
  "demo_context =
     ''[Document 1, Section 0]'' @ [NL] @ ''alpha'' @ [NL] @ [NL, NL] @
     ''[Document 1, Section 1]'' @ [NL] @ ''beta'' @ [NL]"

definition demo_sources :: "pyval list" where
  "demo_sources =
     [PDict [(''document_id'', PInt 1), (''chunk_index'', PInt 0),
             (''similarity_score'', PFloat 1), (''content_preview'', PStr ''alpha'')],
      PDict [(''document_id'', PInt 1), (''chunk_index'', PInt 1),
             (''similarity_score'', PFloat 1), (''content_preview'', PStr ''beta'')]]"

text \<open>
  A library of two processed documents with the chunks of \<open>demo_index\<close>, the cache of
  \<open>cached_state\<close>, and one uploaded file; and the same library in a pipeline whose Redis
  was unreachable at start-up, the store still holding the entries.
\<close>

definition library_state :: state where
  "library_state = cached_state\<lparr>
     documents :=
       [\<lparr>doc_id = 1, filename = ''a.txt'', file_type = ''txt'', doc_content = ''alpha'',
         upload_date = 0, file_size = 9, page_count = None, processed = True\<rparr>,
        \<lparr>doc_id = 2, filename = ''b.txt'', file_type = ''txt'', doc_content = ''gamma'',
         upload_date = 0, file_size = 5, page_count = None, processed = True\<rparr>],
     document_chunks := document_chunks demo_index,
     files := [(''/tmp/documind_uploads/a.txt'', ''alpha beta'')]\<rparr>"

definition stale_state :: state where
  "stale_state = library_state\<lparr>cache_enabled := False\<rparr>"

text \<open>A request that asks for a single source.\<close>

definition top1_request :: query_request where
  "top1_request = \<lparr>rq_query = ''What is X?'', rq_session_id = ''default'', rq_top_k = Some 1\<rparr>"

section \<open>Failure of an ingest step, as the specification names it\<close>



section \<open>Properties of the string operations\<close>

lemma lower_char_idem: "lower_char (lower_char c) = lower_char c"
proof -
  have b: "(of_char c :: nat) < 256" by simp
  show ?thesis
    unfolding lower_char_def Let_def using b by (auto simp: mod_if)
qed

lemma isspace_lower_char: "isspace (lower_char c) = isspace c"
proof -
  have b: "(of_char c :: nat) < 256" by simp
  show ?thesis
    unfolding lower_char_def isspace_def Let_def using b by (auto simp: mod_if)
qed

lemma lower_idem: "lower (lower s) = lower s"
  by (simp add: lower_def lower_char_idem)

lemma dropWhile_isspace_lower:
  "dropWhile isspace (map lower_char s) = map lower_char (dropWhile isspace s)"
  by (induction s) (simp_all add: isspace_lower_char)

lemma lstrip_lower: "lstrip (lower s) = lower (lstrip s)"
  by (simp add: lstrip_def lower_def dropWhile_isspace_lower)

lemma rstrip_lower: "rstrip (lower s) = lower (rstrip s)"
  by (simp add: rstrip_def lower_def rev_map dropWhile_isspace_lower)

lemma strip_lower: "strip (lower s) = lower (strip s)"
  by (simp add: strip_def lstrip_lower rstrip_lower)

lemma lstrip_idem: "lstrip (lstrip s) = lstrip s"
  unfolding lstrip_def by (induction s) simp_all

lemma rstrip_idem: "rstrip (rstrip s) = rstrip s"
  using lstrip_idem [of "rev s"] by (simp add: rstrip_def lstrip_def)

lemma lstrip_eq_Nil_or_hd: "lstrip s = [] \<or> \<not> isspace (hd (lstrip s))"
  unfolding lstrip_def by (metis hd_dropWhile)

lemma lstrip_rstrip_lstrip: "lstrip (rstrip (lstrip s)) = rstrip (lstrip s)"
proof (cases "rstrip (lstrip s) = []")
  case True
  then show ?thesis by (simp add: lstrip_def)
next
  case False
  define t where "t = lstrip s"
  from False have ne: "rstrip t \<noteq> []" by (simp add: t_def)
  have "t \<noteq> []" using ne by (auto simp: rstrip_def)
  then have h: "\<not> isspace (hd t)" using lstrip_eq_Nil_or_hd [of s] by (simp add: t_def)
  obtain u where u: "t = rstrip t @ u"
    unfolding rstrip_def
    by (metis rev_append rev_rev_ident takeWhile_dropWhile_id)
  have "hd (rstrip t) = hd t" using u ne by (metis hd_append2)
  with h ne have "dropWhile isspace (rstrip t) = rstrip t"
    by (cases "rstrip t") simp_all
  then show ?thesis by (simp add: lstrip_def t_def)
qed

lemma strip_idem: "strip (strip s) = strip s"
  by (simp add: strip_def lstrip_rstrip_lstrip rstrip_idem)

lemma strip_lower_lower_strip: "strip (lower (lower (strip s))) = strip (lower s)"
  by (simp add: lower_idem strip_lower strip_idem)

section \<open>The cache key is insensitive to case and surrounding whitespace\<close>

text \<open>
  Claim C5. For every query \<open>q\<close>, \<open>_get_cache_key(q)\<close> equals
  \<open>_get_cache_key(lower(strip(q)))\<close>; hence two queries that differ only by letter case
  or by leading and trailing whitespace, that is, two queries with the same lowered and
  stripped form, have the same cache key and address the same cache entry. This holds for
  every digest function.
\<close>

theorem cache_key_normalised:
  "get_cache_key md5 q = get_cache_key md5 (lower (strip q)) \<and>
   (lower (strip q1) = lower (strip q2) \<longrightarrow> get_cache_key md5 q1 = get_cache_key md5 q2)"
proof -
  have norm: "strip (lower x) = lower (strip x)" for x by (rule strip_lower)
  have a: "get_cache_key md5 q = get_cache_key md5 (lower (strip q))"
    unfolding get_cache_key_def by (simp add: strip_lower_lower_strip)
  have b: "get_cache_key md5 q1 = get_cache_key md5 q2" if "lower (strip q1) = lower (strip q2)"
    unfolding get_cache_key_def using that by (simp add: norm)
  from a b show ?thesis by blast
qed

theorem cache_key_normalised_witness:
  "lower (strip ''Hello World '') = lower (strip ''hello world'') \<and>
   get_cache_key (\<lambda>b. b) ''Hello World '' = get_cache_key (\<lambda>b. b) ''hello world''"
proof -
  have h: "lower (strip ''Hello World '') = lower (strip ''hello world'')"
    by code_simp
  from cache_key_normalised [of "\<lambda>b. b" "''x''" "''Hello World ''" "''hello world''"] h
  show ?thesis by blast
qed

section \<open>File types and the rejection of unknown ones\<close>

lemma get_file_type_extension_type:
  "get_file_type fname = extension_type (lower (path_suffix fname))"
  by (simp add: get_file_type_def extension_type_def dict_get_def type_mapping_def Let_def)

lemma split_on_no_sep: "sep \<notin> set s \<Longrightarrow> split_on sep s = [s]"
  by (induction s) auto

lemma path_name_plain:
  assumes "CHR ''/'' \<notin> set n" "n \<noteq> []" "n \<noteq> ''.''"
  shows "path_name n = n"
  using assms by (simp add: path_name_def path_parts_def split_on_no_sep)

lemma rfind_last_dot:
  assumes "c \<notin> set e"
  shows "rfind c (st @ c # e) = int (length st)"
proof -
  have "takeWhile (\<lambda>x. x \<noteq> c) (rev e @ c # rev st) = rev e"
    using assms by (induction e rule: rev_induct) auto
  then show ?thesis by (simp add: rfind_def)
qed

lemma path_suffix_plain:
  assumes "st \<noteq> []" "CHR ''/'' \<notin> set st" "e \<noteq> []" "CHR ''.'' \<notin> set e" "CHR ''/'' \<notin> set e"
  shows "path_suffix (st @ CHR ''.'' # e) = CHR ''.'' # e"
proof -
  have n: "path_name (st @ CHR ''.'' # e) = st @ CHR ''.'' # e"
    using assms by (intro path_name_plain) (auto simp: append_eq_Cons_conv)
  show ?thesis
    using assms by (simp add: path_suffix_def n rfind_last_dot Let_def)
qed

lemma lower_char_dot: "lower_char CHR ''.'' = CHR ''.''"
  by (simp add: lower_char_def)

lemma upload_unknown:
  assumes "get_file_type fname = ''unknown''"
  shows "upload_document s fname bytes = (Inl (HTTPException 500 (str_error (HTTPException 400 ''Unsupported file type''))), s)"
  using assms by (simp add: upload_document_def upload_body_def)

text \<open>
  Claim C10. \<open>get_file_type\<close> reads the type off the lowered suffix of the file name:
  it agrees with the table of the six extensions \<open>.pdf\<close>, \<open>.docx\<close>, \<open>.doc\<close>,
  \<open>.xlsx\<close>, \<open>.xls\<close>, \<open>.txt\<close> and the four types, with \<open>unknown\<close> for any other
  suffix; for a plain file name \<open>stem.ext\<close> the answer depends on \<open>ext\<close> through its
  lower-case form only; and when the answer is \<open>unknown\<close> the upload ends in an HTTP
  error with the state untouched, so no document record, no file and no background task
  exist afterwards.
\<close>

theorem get_file_type_by_extension:
  "get_file_type fname = extension_type (lower (path_suffix fname)) \<and>
   (st \<noteq> [] \<and> CHR ''/'' \<notin> set st \<and> e \<noteq> [] \<and> CHR ''.'' \<notin> set e \<and> CHR ''/'' \<notin> set e
      \<longrightarrow> get_file_type (st @ ''.'' @ e) = extension_type (''.'' @ lower e)) \<and>
   (get_file_type fname = ''unknown''
      \<longrightarrow> upload_document s fname bytes =
            (Inl (HTTPException 500 (str_error (HTTPException 400 ''Unsupported file type''))), s))"
proof (intro conjI impI)
  show "get_file_type fname = extension_type (lower (path_suffix fname))"
    by (rule get_file_type_extension_type)
next
  assume a: "st \<noteq> [] \<and> CHR ''/'' \<notin> set st \<and> e \<noteq> [] \<and> CHR ''.'' \<notin> set e \<and> CHR ''/'' \<notin> set e"
  then have "path_suffix (st @ CHR ''.'' # e) = CHR ''.'' # e"
    by (intro path_suffix_plain) simp_all
  then show "get_file_type (st @ ''.'' @ e) = extension_type (''.'' @ lower e)"
    by (simp add: get_file_type_extension_type lower_def lower_char_dot)
next
  assume "get_file_type fname = ''unknown''"
  then show "upload_document s fname bytes =
      (Inl (HTTPException 500 (str_error (HTTPException 400 ''Unsupported file type''))), s)"
    by (rule upload_unknown)
qed


theorem get_file_type_by_extension_witness:
  "(''Report'' \<noteq> [] \<and> CHR ''/'' \<notin> set ''Report'' \<and> ''DocX'' \<noteq> [] \<and>
    CHR ''.'' \<notin> set ''DocX'' \<and> CHR ''/'' \<notin> set ''DocX'') \<and>
   get_file_type ''Report.DocX'' = ''docx'' \<and>
   get_file_type ''notes.md'' = ''unknown'' \<and>
   upload_document empty_state ''notes.md'' ''# hi'' =
     (Inl (HTTPException 500 (str_error (HTTPException 400 ''Unsupported file type''))), empty_state)"
proof -
  have h1: "''Report'' \<noteq> [] \<and> CHR ''/'' \<notin> set ''Report'' \<and> ''DocX'' \<noteq> [] \<and>
    CHR ''.'' \<notin> set ''DocX'' \<and> CHR ''/'' \<notin> set ''DocX''" by simp
  have h2: "get_file_type ''notes.md'' = ''unknown''" by code_simp
  have e: "extension_type (''.'' @ lower ''DocX'') = ''docx''" by code_simp
  from get_file_type_by_extension [of "''notes.md''" "''Report''" "''DocX''" empty_state "''# hi''"] h1 h2 e
  show ?thesis by simp
qed


section \<open>The chunks of a text\<close>




section \<open>The similarity search\<close>





section \<open>No context: the fixed answer\<close>

lemma join_eq_Nil: "join sep xs = [] \<longleftrightarrow> (\<forall>x \<in> set xs. x = []) \<and> (sep = [] \<or> length xs \<le> 1)"
  by (induction sep xs rule: join.induct) auto

lemma context_part_not_Nil: "context_part c \<noteq> []"
  by (simp add: context_part_def)

lemma cache_check_state:
  "cache_check env s query use_cache = (r, s1) \<Longrightarrow> s1 = s\<lparr>clock := clock s1\<rparr>"
  by (auto simp: cache_check_def tick_def Let_def split: if_splits option.splits)

lemma retrieve_context_state:
  "retrieve_context env s query k = (r, s2) \<Longrightarrow> s2 = s\<lparr>clock := clock s2\<rparr>"
  by (auto simp: retrieve_context_def tick_def Let_def split: sum.splits)

lemma retrieve_context_empty_iff:
  assumes "retrieve_context env s query k = (Inr (ctx, srcs), s2)"
  shows "ctx = [] \<longleftrightarrow> srcs = []"
proof -
  from assms obtain results where
    c: "ctx = join [NL, NL] (map (\<lambda>(chunk, score). context_part chunk) results)" and
    s: "srcs = map (\<lambda>(chunk, score). source_entry chunk score) results"
    by (auto simp: retrieve_context_def Let_def split: sum.splits)
  show ?thesis
    unfolding c s by (cases results) (auto simp: join_eq_Nil context_part_not_Nil)
qed

text \<open>
  Claim C2. When the cache check of \<open>generate_answer\<close> misses and the retrieval step
  returns zero chunks, the call returns the fixed not-found answer with an empty source
  list and \<open>cached = False\<close>; the completion endpoint has not been called, and the
  history and the cache are what they were before the call. Against an empty index the
  retrieval step returns zero chunks as soon as the query can be embedded.
\<close>

theorem generate_answer_no_context:
  "(cache_check env db query use_cache = (None, s1) \<and>
    retrieve_context env s1 query 5 = (Inr (ctx, []), s2) \<longrightarrow>
      generate_answer env db query sid use_cache =
        (Inr [(''answer'', PStr not_found_answer), (''sources'', PList []),
              (''response_time'', PFloat (clock s2 - clock db)), (''cached'', PBool False)],
         s2) \<and>
      completion_calls s2 = completion_calls db \<and>
      chat_history s2 = chat_history db \<and>
      redis_store s2 = redis_store db) \<and>
   (cache_check env db query use_cache = (None, s1) \<and>
    embed_query env query = Inr qe \<and> document_chunks db = [] \<longrightarrow>
      (\<exists>s2. retrieve_context env s1 query 5 = (Inr ([], []), s2)))"
proof (intro conjI impI)
  assume a: "cache_check env db query use_cache = (None, s1) \<and>
    retrieve_context env s1 query 5 = (Inr (ctx, []), s2)"
  then have miss: "cache_check env db query use_cache = (None, s1)"
    and ret: "retrieve_context env s1 query 5 = (Inr (ctx, []), s2)" by simp_all
  have ctx: "ctx = []" using retrieve_context_empty_iff [OF ret] by simp
  show "generate_answer env db query sid use_cache =
        (Inr [(''answer'', PStr not_found_answer), (''sources'', PList []),
              (''response_time'', PFloat (clock s2 - clock db)), (''cached'', PBool False)],
         s2)"
    by (simp add: generate_answer_def miss ret ctx answer_bundle_def)
  have s1: "s1 = db\<lparr>clock := clock s1\<rparr>" using cache_check_state [OF miss] .
  have s2: "s2 = s1\<lparr>clock := clock s2\<rparr>" using retrieve_context_state [OF ret] .
  show "completion_calls s2 = completion_calls db"
    by (subst s2, subst s1) simp
  show "chat_history s2 = chat_history db"
    by (subst s2, subst s1) simp
  show "redis_store s2 = redis_store db"
    by (subst s2, subst s1) simp
next
  assume b: "cache_check env db query use_cache = (None, s1) \<and>
    embed_query env query = Inr qe \<and> document_chunks db = []"
  then have "s1 = db\<lparr>clock := clock s1\<rparr>" using cache_check_state by blast
  then have "document_chunks s1 = document_chunks db \<and> True"
    by (rule ssubst) simp
  with b show "\<exists>s2. retrieve_context env s1 query 5 = (Inr ([], []), s2)"
    by (simp add: retrieve_context_def vector_search_def tick_def Let_def)
qed

theorem generate_answer_no_context_witness:
  "cache_check demo_env empty_state ''What is X?'' True =
     (None, empty_state\<lparr>clock := 1 / 1000\<rparr>) \<and>
   retrieve_context demo_env (empty_state\<lparr>clock := 1 / 1000\<rparr>) ''What is X?'' 5 =
     (Inr ([], []), empty_state\<lparr>clock := 111 / 1000\<rparr>) \<and>
   embed_query demo_env ''What is X?'' = Inr [1] \<and>
   document_chunks empty_state = [] \<and>
   generate_answer demo_env empty_state ''What is X?'' ''default'' True =
     (Inr [(''answer'', PStr not_found_answer), (''sources'', PList []),
           (''response_time'', PFloat (111 / 1000)), (''cached'', PBool False)],
      empty_state\<lparr>clock := 111 / 1000\<rparr>)"
proof -
  have h1: "cache_check demo_env empty_state ''What is X?'' True =
     (None, empty_state\<lparr>clock := 1 / 1000\<rparr>)"
    by (simp add: cache_check_def empty_state_def demo_env_def redis_get_def dict_get_def
        tick_def Let_def)
  have h2: "retrieve_context demo_env (empty_state\<lparr>clock := 1 / 1000\<rparr>) ''What is X?'' 5 =
     (Inr ([], []), empty_state\<lparr>clock := 111 / 1000\<rparr>)"
    by (simp add: retrieve_context_def vector_search_def empty_state_def demo_env_def
        tick_def Let_def)
  have h3: "embed_query demo_env ''What is X?'' = Inr [1]"
    by (simp add: demo_env_def)
  have h4: "document_chunks empty_state = []"
    by (simp add: empty_state_def)
  have c: "clock (empty_state\<lparr>clock := 111 / 1000\<rparr>) - clock empty_state = 111 / 1000"
    by (simp add: empty_state_def)
  from generate_answer_no_context [of demo_env empty_state "''What is X?''" True
      "empty_state\<lparr>clock := 1 / 1000\<rparr>" "[]" "empty_state\<lparr>clock := 111 / 1000\<rparr>"
      "''default''" "[1]"] h1 h2 h3 h4 c
  show ?thesis by simp
qed

section \<open>A cache hit\<close>

lemma dict_get_dict_set:
  "dict_get (dict_set k v d) k' = (if k' = k then Some v else dict_get d k')"
  by (induction d) (auto simp: dict_get_def)

lemma cache_check_hit:
  assumes "use_cache" "cache_enabled db"
    and "redis_get (tick (redis_latency env) db) (get_cache_key (md5_hexdigest env) query) = Some txt"
    and "txt \<noteq> []"
  shows "cache_check env db query use_cache = (Some txt, tick (redis_latency env) db)"
  using assms by (simp add: cache_check_def Let_def)

text \<open>
  Claim C4. On a cache hit, that is, when caching is requested and enabled and the key of
  the query holds a live, non-empty text that parses to a dictionary, \<open>generate_answer\<close>
  returns that dictionary with \<open>cached\<close> set to \<open>True\<close> and \<open>response_time\<close> set to
  the time the cache read took; every other key has the stored value, whatever response
  time was stored. Nothing but the clock changes.
\<close>

theorem generate_answer_cache_hit:
  assumes "use_cache" and "cache_enabled db"
    and "redis_get (tick (redis_latency env) db) (get_cache_key (md5_hexdigest env) query) = Some txt"
    and "txt \<noteq> []"
    and "json_loads env txt = Inr (PDict stored)"
  shows "\<exists>result.
           generate_answer env db query sid use_cache =
             (Inr result, db\<lparr>clock := clock db + redis_latency env\<rparr>) \<and>
           dict_get result ''cached'' = Some (PBool True) \<and>
           dict_get result ''response_time'' = Some (PFloat (redis_latency env)) \<and>
           (\<forall>k. k \<noteq> ''cached'' \<and> k \<noteq> ''response_time''
                \<longrightarrow> dict_get result k = dict_get stored k)"
proof -
  define result where
    "result = dict_set ''response_time'' (PFloat (redis_latency env))
                (dict_set ''cached'' (PBool True) stored)"
  have hit: "cache_check env db query use_cache = (Some txt, tick (redis_latency env) db)"
    using assms(1-4) by (rule cache_check_hit)
  have "generate_answer env db query sid use_cache =
          (Inr result, db\<lparr>clock := clock db + redis_latency env\<rparr>)"
    by (simp add: generate_answer_def hit assms(5) result_def tick_def)
  moreover have "dict_get result ''cached'' = Some (PBool True)"
    by (simp add: result_def dict_get_dict_set)
  moreover have "dict_get result ''response_time'' = Some (PFloat (redis_latency env))"
    by (simp add: result_def dict_get_dict_set)
  moreover have "\<forall>k. k \<noteq> ''cached'' \<and> k \<noteq> ''response_time''
                \<longrightarrow> dict_get result k = dict_get stored k"
    by (simp add: result_def dict_get_dict_set)
  ultimately show ?thesis by blast
qed

lemma demo_key: "get_cache_key (md5_hexdigest demo_env) ''What is X?'' = ''rag:query:what is x?''"
proof -
  have "get_cache_key (\<lambda>b. b) ''What is X?'' = ''rag:query:what is x?''" by code_simp
  then show ?thesis by (simp add: demo_env_def)
qed

theorem generate_answer_cache_hit_witness:
  "cache_enabled cached_state \<and>
   redis_get (tick (redis_latency demo_env) cached_state)
     (get_cache_key (md5_hexdigest demo_env) ''What is X?'') = Some ''{}'' \<and>
   json_loads demo_env ''{}'' =
     Inr (PDict [(''answer'', PStr ''stored''), (''sources'', PList []),
                 (''response_time'', PFloat 9), (''cached'', PBool False)]) \<and>
   (\<exists>result.
      generate_answer demo_env cached_state ''What is X?'' ''default'' True =
        (Inr result, cached_state\<lparr>clock := clock cached_state + redis_latency demo_env\<rparr>) \<and>
      dict_get result ''cached'' = Some (PBool True) \<and>
      dict_get result ''response_time'' = Some (PFloat (redis_latency demo_env)) \<and>
      dict_get result ''answer'' = Some (PStr ''stored''))"
proof -
  have h2: "cache_enabled cached_state"
    by (simp add: cached_state_def empty_state_def)
  have h3: "redis_get (tick (redis_latency demo_env) cached_state)
     (get_cache_key (md5_hexdigest demo_env) ''What is X?'') = Some ''{}''"
    unfolding demo_key
    by (simp add: redis_get_def tick_def cached_state_def empty_state_def demo_env_def
        dict_get_def live_def)
  have h4: "''{}'' \<noteq> []" by simp
  have h5: "json_loads demo_env ''{}'' =
     Inr (PDict [(''answer'', PStr ''stored''), (''sources'', PList []),
                 (''response_time'', PFloat 9), (''cached'', PBool False)])"
    by (simp add: demo_env_def)
  from generate_answer_cache_hit [where sid = "''default''", OF TrueI h2 h3 h4 h5]
  obtain result where
    r: "generate_answer demo_env cached_state ''What is X?'' ''default'' True =
        (Inr result, cached_state\<lparr>clock := clock cached_state + redis_latency demo_env\<rparr>)"
       "dict_get result ''cached'' = Some (PBool True)"
       "dict_get result ''response_time'' = Some (PFloat (redis_latency demo_env))"
       "\<forall>k. k \<noteq> ''cached'' \<and> k \<noteq> ''response_time'' \<longrightarrow>
          dict_get result k =
          dict_get [(''answer'', PStr ''stored''), (''sources'', PList []),
                    (''response_time'', PFloat 9), (''cached'', PBool False)] k"
    by blast
  from r(4) have "dict_get result ''answer'' = Some (PStr ''stored'')"
    by (simp add: dict_get_def)
  with r(1-3) h2 h3 h5 show ?thesis by blast
qed

section \<open>A miss with context: history and write-through\<close>

lemma str_nat_0: "str_nat 0 = ''0''"
  by code_simp

lemma str_nat_1: "str_nat 1 = ''1''"
  by code_simp

lemma str_nat_Suc_0: "str_nat (Suc 0) = ''1''"
  using str_nat_1 by simp

lemma demo_retrieve:
  assumes "document_chunks s = document_chunks demo_index"
    and "embed_query env q = Inr [1]"
    and "cosine_distance env = (\<lambda>a b. if a = b then 0 else 1)"
    and "embed_latency env = 1 / 10" and "search_latency env = 1 / 100"
  shows "retrieve_context env s q 5 =
           (Inr (demo_context, demo_sources), s\<lparr>clock := clock s + 11 / 100\<rparr>)"
  using assms
  by (simp add: retrieve_context_def vector_search_def demo_index_def empty_state_def
      tick_def Let_def context_part_def source_entry_def str_nat_0 str_nat_Suc_0
      demo_context_def demo_sources_def)

lemma strip_an_answer: "strip '' an answer '' = ''an answer''"
  by code_simp


lemma save_and_cache_result:
  "fst (save_and_cache env s query sid answer srcs rt) = answer_bundle (strip answer) srcs rt False"
  by (simp add: save_and_cache_def Let_def)



lemma generate_answer_miss:
  assumes miss: "cache_check env db query use_cache = (None, s1)"
    and ret: "retrieve_context env s1 query 5 = (Inr (ctx, srcs), s2)"
    and ne: "srcs \<noteq> []"
    and llm: "chain_run env ctx query = Inr answer"
  shows "generate_answer env db query sid use_cache =
           (Inr (fst (save_and_cache env
                   ((tick (llm_latency env) s2)\<lparr>completion_calls := Suc (completion_calls s2)\<rparr>)
                   query sid answer srcs (clock s2 + llm_latency env - clock db))),
            snd (save_and_cache env
                   ((tick (llm_latency env) s2)\<lparr>completion_calls := Suc (completion_calls s2)\<rparr>)
                   query sid answer srcs (clock s2 + llm_latency env - clock db)))"
proof -
  have "ctx \<noteq> []" using retrieve_context_empty_iff [OF ret] ne by simp
  then show ?thesis
    by (simp add: generate_answer_def miss ret llm Let_def tick_def split: prod.splits)
qed



lemma demo_context_not_Nil: "demo_context \<noteq> []"
  by (simp add: demo_context_def)






section \<open>Deleting a document\<close>

lemma map_of_filter_key:
  "map_of (filter (\<lambda>(k, v, e). Q k) xs) k = (if Q k then map_of xs k else None)"
  by (induction xs) auto

lemma dict_get_redis_delete:
  "dict_get (redis_store (redis_delete ks s)) k =
     (if k \<in> set ks then None else dict_get (redis_store s) k)"
  by (simp add: redis_delete_def dict_get_def map_of_filter_key)

lemma redis_get_redis_delete:
  "redis_get (redis_delete ks s) k = (if k \<in> set ks then None else redis_get s k)"
proof -
  have c: "clock (redis_delete ks s) = clock s" by (simp add: redis_delete_def)
  show ?thesis
    unfolding redis_get_def dict_get_redis_delete c by simp
qed

lemma redis_keys_prefix: "k \<in> set (redis_keys s p) \<Longrightarrow> startswith k p"
  by (auto simp: redis_keys_def)

lemma live_entry_in_keys:
  assumes "map_of st k = Some (v, expiry)" "live now expiry" "startswith k p"
  shows "k \<in> fst ` {x \<in> set st. case x of (k, v, expiry) \<Rightarrow> live now expiry \<and> startswith k p}"
  using assms by (force dest: map_of_SomeD)

lemma redis_get_not_in_keys:
  assumes "startswith k p" "k \<notin> set (redis_keys s p)"
  shows "redis_get s k = None"
proof (cases "dict_get (redis_store s) k")
  case None
  then show ?thesis by (simp add: redis_get_def)
next
  case (Some a)
  obtain v expiry where a: "a = (v, expiry)" by (cases a)
  have "\<not> live (clock s) expiry"
  proof
    assume "live (clock s) expiry"
    with Some a assms(1) have "k \<in> set (redis_keys s p)"
      unfolding redis_keys_def dict_get_def set_map set_filter
      by (intro live_entry_in_keys) auto
    with assms(2) show False by simp
  qed
  with Some a show ?thesis by (simp add: redis_get_def)
qed

lemma live_mono: "\<not> live t expiry \<Longrightarrow> t \<le> t' \<Longrightarrow> \<not> live t' expiry"
  by (auto simp: live_def split: option.splits)

lemma redis_get_None_later:
  assumes "redis_get s k = None" "clock s \<le> t"
  shows "redis_get (s\<lparr>clock := t\<rparr>) k = None"
  using assms live_mono [of "clock s" _ t]
  by (auto simp: redis_get_def split: option.splits if_splits)

lemma clear_cache_enabled:
  assumes "cache_enabled s"
  shows "(startswith k ''rag:query:'' \<longrightarrow> redis_get (clear_cache s) k = None) \<and>
         (\<not> startswith k ''rag:query:'' \<longrightarrow>
            dict_get (redis_store (clear_cache s)) k = dict_get (redis_store s) k)"
proof (cases "redis_keys s ''rag:query:'' = []")
  case True
  then have cc: "clear_cache s = s" by (simp add: clear_cache_def)
  have "redis_get s k = None" if "startswith k ''rag:query:''"
    using that True by (intro redis_get_not_in_keys [of k "''rag:query:''"]) simp_all
  then show ?thesis by (simp add: cc)
next
  case False
  then have cc: "clear_cache s = redis_delete (redis_keys s ''rag:query:'') s"
    using assms by (simp add: clear_cache_def)
  have a: "redis_get (clear_cache s) k = None" if p: "startswith k ''rag:query:''"
    using redis_get_not_in_keys [OF p, of s]
    by (simp add: cc redis_get_redis_delete)
  have b: "dict_get (redis_store (clear_cache s)) k = dict_get (redis_store s) k"
    if "\<not> startswith k ''rag:query:''"
    using that redis_keys_prefix [of k s "''rag:query:''"]
    by (auto simp: cc dict_get_redis_delete)
  from a b show ?thesis by blast
qed

lemma clear_cache_disabled: "\<not> cache_enabled s \<Longrightarrow> clear_cache s = s"
  by (simp add: clear_cache_def)

lemma clear_cache_tables:
  "documents (clear_cache s) = documents s \<and>
   document_chunks (clear_cache s) = document_chunks s \<and>
   clock (clear_cache s) = clock s"
  by (simp add: clear_cache_def redis_delete_def Let_def)


lemma delete_document_found:
  assumes "find (\<lambda>d. doc_id d = did) (documents db) = Some doc"
  shows "delete_document db did =
           (Inr ''Document deleted successfully'',
            clear_cache (db\<lparr>document_chunks := filter (\<lambda>c. document_id c \<noteq> did) (document_chunks db),
                            documents := filter (\<lambda>d. doc_id d \<noteq> did) (documents db)\<rparr>))"
proof -
  have "doc_id doc = did" using assms by (auto simp: find_Some_iff)
  then show ?thesis using assms by (simp add: delete_document_def Let_def)
qed

text \<open>
  Claim C6, as amended. Deleting an existing document removes every chunk of that document
  and leaves the other chunks alone, removes the document row, and, when caching is
  enabled, leaves no live entry under any key that starts with \<open>rag:query:\<close>, now or
  later, while every key outside that namespace keeps its entry. When caching is disabled
  the store is left as it was.
\<close>

theorem delete_document_cascade:
  assumes "find (\<lambda>d. doc_id d = did) (documents db) = Some doc"
  shows "\<exists>s'. delete_document db did = (Inr ''Document deleted successfully'', s') \<and>
           document_chunks s' = filter (\<lambda>c. document_id c \<noteq> did) (document_chunks db) \<and>
           (\<forall>c \<in> set (document_chunks s'). document_id c \<noteq> did) \<and>
           (\<forall>d \<in> set (documents s'). doc_id d \<noteq> did) \<and>
           (cache_enabled db \<longrightarrow>
              (\<forall>k t. startswith k ''rag:query:'' \<and> clock db \<le> t
                     \<longrightarrow> redis_get (s'\<lparr>clock := t\<rparr>) k = None) \<and>
              (\<forall>k. \<not> startswith k ''rag:query:''
                   \<longrightarrow> dict_get (redis_store s') k = dict_get (redis_store db) k)) \<and>
           (\<not> cache_enabled db \<longrightarrow> redis_store s' = redis_store db)"
proof -
  define s1 where
    "s1 = db\<lparr>document_chunks := filter (\<lambda>c. document_id c \<noteq> did) (document_chunks db),
              documents := filter (\<lambda>d. doc_id d \<noteq> did) (documents db)\<rparr>"
  define s' where "s' = clear_cache s1"
  have run: "delete_document db did = (Inr ''Document deleted successfully'', s')"
    using delete_document_found [OF assms] by (simp add: s'_def s1_def)
  have t: "documents s' = documents s1" "document_chunks s' = document_chunks s1"
    "clock s' = clock s1"
    using clear_cache_tables [of s1] by (simp_all add: s'_def)
  have ch: "document_chunks s' = filter (\<lambda>c. document_id c \<noteq> did) (document_chunks db)"
    by (simp add: t s1_def)
  have ds: "documents s' = filter (\<lambda>d. doc_id d \<noteq> did) (documents db)"
    by (simp add: t s1_def)
  have en: "cache_enabled s1 = cache_enabled db" by (simp add: s1_def)
  have st: "redis_store s1 = redis_store db" by (simp add: s1_def)
  have ck: "clock s' = clock db" by (simp add: t s1_def)
  have on: "redis_get (s'\<lparr>clock := t\<rparr>) k = None"
    if "cache_enabled db" "startswith k ''rag:query:''" "clock db \<le> t" for k t
  proof -
    have "redis_get s' k = None"
      using clear_cache_enabled [of s1 k] that en by (simp add: s'_def)
    then show ?thesis using that(3) ck by (intro redis_get_None_later) simp_all
  qed
  have other: "dict_get (redis_store s') k = dict_get (redis_store db) k"
    if "cache_enabled db" "\<not> startswith k ''rag:query:''" for k
    using clear_cache_enabled [of s1 k] that en st by (simp add: s'_def)
  have off: "redis_store s' = redis_store db" if "\<not> cache_enabled db"
    using that en st by (simp add: s'_def clear_cache_disabled)
  from run ch ds on other off show ?thesis
    by (intro exI [of _ s']) auto
qed

theorem delete_document_cascade_witness:
  "find (\<lambda>d. doc_id d = 1) (documents library_state) =
     Some \<lparr>doc_id = 1, filename = ''a.txt'', file_type = ''txt'', doc_content = ''alpha'',
           upload_date = 0, file_size = 9, page_count = None, processed = True\<rparr> \<and>
   cache_enabled library_state \<and>
   startswith ''rag:query:what is x?'' ''rag:query:'' \<and>
   \<not> startswith ''session:42'' ''rag:query:'' \<and>
   (\<exists>s'. delete_document library_state 1 = (Inr ''Document deleted successfully'', s') \<and>
         map document_id (document_chunks s') = [2] \<and>
         redis_get (s'\<lparr>clock := 50\<rparr>) ''rag:query:what is x?'' = None \<and>
         dict_get (redis_store s') ''session:42'' = Some (''data'', None))"
proof -
  have h: "find (\<lambda>d. doc_id d = 1) (documents library_state) =
     Some \<lparr>doc_id = 1, filename = ''a.txt'', file_type = ''txt'', doc_content = ''alpha'',
           upload_date = 0, file_size = 9, page_count = None, processed = True\<rparr>"
    by (simp add: library_state_def cached_state_def empty_state_def)
  have en: "cache_enabled library_state"
    by (simp add: library_state_def cached_state_def empty_state_def)
  have p1: "startswith ''rag:query:what is x?'' ''rag:query:''"
    by (simp add: startswith_def)
  have p2: "\<not> startswith ''session:42'' ''rag:query:''"
    by (simp add: startswith_def)
  have c: "clock library_state \<le> 50"
    by (simp add: library_state_def cached_state_def empty_state_def)
  have old: "dict_get (redis_store library_state) ''session:42'' = Some (''data'', None)"
    by (simp add: library_state_def cached_state_def empty_state_def dict_get_def)
  have chunks: "map document_id
      (filter (\<lambda>c. document_id c \<noteq> 1) (document_chunks library_state)) = [2]"
    by (simp add: library_state_def cached_state_def demo_index_def empty_state_def)
  from delete_document_cascade [OF h] en obtain s' where
    r: "delete_document library_state 1 = (Inr ''Document deleted successfully'', s')"
       "document_chunks s' = filter (\<lambda>c. document_id c \<noteq> 1) (document_chunks library_state)"
       "\<forall>k t. startswith k ''rag:query:'' \<and> clock library_state \<le> t
              \<longrightarrow> redis_get (s'\<lparr>clock := t\<rparr>) k = None"
       "\<forall>k. \<not> startswith k ''rag:query:''
            \<longrightarrow> dict_get (redis_store s') k = dict_get (redis_store library_state) k"
    by blast
  from r(3) p1 c have g: "redis_get (s'\<lparr>clock := 50\<rparr>) ''rag:query:what is x?'' = None"
    by blast
  from r(4) p2 old have o: "dict_get (redis_store s') ''session:42'' = Some (''data'', None)"
    by simp
  from r(2) chunks have d: "map document_id (document_chunks s') = [2]" by simp
  show ?thesis
    using h en p1 p2 r(1) d g o
    by (intro conjI exI [of _ s']) simp_all
qed

text \<open>
  Claim C6 as stated fails with caching disabled: document 1 exists and is deleted, and the
  entry cached under \<open>rag:query:what is x?\<close> is still served by the store afterwards.
\<close>

theorem stale_cache_counterexample:
  "map doc_id (documents stale_state) = [1, 2] \<and>
   startswith ''rag:query:what is x?'' ''rag:query:'' \<and>
   fst (delete_document stale_state 1) = Inr ''Document deleted successfully'' \<and>
   map doc_id (documents (snd (delete_document stale_state 1))) = [2] \<and>
   redis_get (snd (delete_document stale_state 1)) ''rag:query:what is x?'' = Some ''{}''"
  by (simp add: delete_document_def clear_cache_def stale_state_def library_state_def
      cached_state_def demo_index_def empty_state_def redis_get_def dict_get_def live_def
      startswith_def Let_def)

section \<open>The endpoint and the requested number of sources\<close>

lemma query_documents_top_k_irrelevant:
  "query_documents env db (request\<lparr>rq_top_k := k\<rparr>) = query_documents env db request"
  by (simp add: query_documents_def)

lemma cached_index_run:
  "fst (generate_answer demo_env demo_index ''What is X?'' ''default'' True) =
     Inr (answer_bundle ''an answer'' demo_sources (2111 / 1000) False)"
proof -
  have h1: "cache_check demo_env demo_index ''What is X?'' True =
      (None, tick (1 / 1000) demo_index)"
    by (simp add: cache_check_def redis_get_def dict_get_def demo_index_def empty_state_def
        demo_env_def tick_def Let_def)
  have h2: "retrieve_context demo_env (tick (1 / 1000) demo_index) ''What is X?'' 5 =
     (Inr (demo_context, demo_sources),
      (tick (1 / 1000) demo_index)\<lparr>clock := clock (tick (1 / 1000) demo_index) + 11 / 100\<rparr>)"
    by (rule demo_retrieve) (simp_all add: tick_def demo_env_def)
  have h3: "demo_sources \<noteq> []" by (simp add: demo_sources_def)
  have h4: "chain_run demo_env demo_context ''What is X?'' = Inr '' an answer ''"
    by (simp add: demo_env_def)
  show ?thesis
    unfolding generate_answer_miss [OF h1 h2 h3 h4]
    by (simp add: save_and_cache_result strip_an_answer tick_def demo_index_def
        empty_state_def demo_env_def)
qed

text \<open>
  Claim C7. The claim bounds the number of sources of a response by the \<open>top_k\<close> of the
  request. The endpoint does not pass \<open>top_k\<close> on: the response is the same for every
  value of that field, and the retrieval always runs with its default of five. A request
  with \<open>top_k = 1\<close> against the index of three chunks, two of them above the similarity
  floor, is answered with two sources.
\<close>

theorem query_top_k_ignored:
  "rq_top_k top1_request = Some 1 \<and>
   fst (query_documents demo_env demo_index top1_request) =
     Inr \<lparr>qr_answer = ''an answer'',
          qr_sources =
            [[(''document_id'', PInt 1), (''chunk_index'', PInt 0),
              (''similarity_score'', PFloat 1), (''content_preview'', PStr ''alpha'')],
             [(''document_id'', PInt 1), (''chunk_index'', PInt 1),
              (''similarity_score'', PFloat 1), (''content_preview'', PStr ''beta'')]],
          qr_response_time = 2111 / 1000, qr_cached = False\<rparr> \<and>
   (case fst (query_documents demo_env demo_index top1_request) of
      Inl e \<Rightarrow> 0
    | Inr r \<Rightarrow> length (qr_sources r)) = 2"
proof -
  obtain s' where g: "generate_answer demo_env demo_index ''What is X?'' ''default'' True =
     (Inr (answer_bundle ''an answer'' demo_sources (2111 / 1000) False), s')"
    using cached_index_run by (cases "generate_answer demo_env demo_index ''What is X?'' ''default'' True") simp
  have q: "QueryResponse (answer_bundle ''an answer'' demo_sources (2111 / 1000) False) =
     Inr \<lparr>qr_answer = ''an answer'',
          qr_sources =
            [[(''document_id'', PInt 1), (''chunk_index'', PInt 0),
              (''similarity_score'', PFloat 1), (''content_preview'', PStr ''alpha'')],
             [(''document_id'', PInt 1), (''chunk_index'', PInt 1),
              (''similarity_score'', PFloat 1), (''content_preview'', PStr ''beta'')]],
          qr_response_time = 2111 / 1000, qr_cached = False\<rparr>"
    by (simp add: QueryResponse_def answer_bundle_def demo_sources_def dict_get_def)
  show ?thesis
    by (simp add: query_documents_def top1_request_def g q)
qed

section \<open>A failing ingest step is recovered in the worker\<close>








end
